theory Spec2Isabelle
  imports
    Main
    "HOL-Library.Word"
    "HOL-Library.Char_ord"
    "HOL-Library.List_Lexorder"
    "HOL-Library.Sublist"
    "HOL-Library.Multiset"
begin

section \<open>Stage-option generators of internal/distro/rhel86/stage_options.go\<close>

text \<open>
  The generators are Go functions that build one option record each. A Go string is a
  byte sequence, modelled as \<^typ>\<open>string\<close>; the comparison \<open><\<close> on Go strings is
  the bytewise lexicographic order, which is the order of \<^theory_text>\<open>List_Lexorder\<close> over
  \<^theory_text>\<open>Char_ord\<close>. A pointer that a generator tests against nil is an
  \<^typ>\<open>'a option\<close>; a pointer it dereferences without a test (the partition table, the
  device, the users stage options) is passed as the value it points to. A generator
  that can panic or return an error returns a sum, with the failure on the left.
\<close>

subsection \<open>Failures\<close>

text \<open>
  \<open>Panic\<close> is a Go panic (explicit, or raised by the runtime on a nil dereference or an
  index out of range): generation is aborted and nothing is returned. \<open>Err\<close> is an error
  value returned to the caller in the second result.
\<close>

datatype error = Panic string | Err string

definition nil_dereference :: error where
  "nil_dereference = Panic ''runtime error: invalid memory address or nil pointer dereference''"

definition index_out_of_range :: error where
  "index_out_of_range = Panic ''runtime error: index out of range''"

subsection \<open>Partition tables (package disk, as the generators use it)\<close>

text \<open>
  The declarations of package disk are not among the sources; the records hold the fields
  the generators read, with the types of the data model (sizes and offsets are uint64).
\<close>

record Filesystem =
  fs_Type :: string
  fs_UUID :: string
  fs_Mountpoint :: string

record Partition =
  p_Start :: "64 word"
  p_Size :: "64 word"
  p_Type :: string
  p_Bootable :: bool
  p_UUID :: string
  p_Filesystem :: "Filesystem option"

record PartitionTable =
  pt_UUID :: string
  pt_Type :: string
  pt_Partitions :: "Partition list"

subsection \<open>Devices and mounts (package osbuild2, as the generators use it)\<close>

record LoopbackDeviceOptions =
  lo_Filename :: string
  lo_Start :: "64 word"
  lo_Size :: "64 word"

text \<open>
  \<open>Device.Options\<close> is an interface value; the resolver asserts that its dynamic type is
  \<open>*LoopbackDeviceOptions\<close>. \<open>OtherDeviceOptions\<close> stands for every other dynamic type
  and for nil.
\<close>

datatype DeviceOptions = Loopback LoopbackDeviceOptions | OtherDeviceOptions

record Device =
  dev_Type :: string
  dev_Options :: DeviceOptions

definition NewLoopbackDevice :: "LoopbackDeviceOptions \<Rightarrow> Device" where
  "NewLoopbackDevice options = \<lparr>dev_Type = ''org.osbuild.loopback'', dev_Options = Loopback options\<rparr>"

text \<open>
  Modelled from the spec: the mount constructors \<open>NewXfsMount\<close>, \<open>NewFATMount\<close>,
  \<open>NewExt4Mount\<close> and \<open>NewBtrfsMount\<close> of package osbuild2 are not among the sources.
  Each takes a name, a source device and a target path and builds a mount record of its
  own shape; the shape is kept as a tag.
\<close>

datatype MountType = XfsMount | FATMount | Ext4Mount | BtrfsMount

record Mount =
  m_Name :: string
  m_Type :: MountType
  m_Source :: string
  m_Target :: string

definition NewXfsMount :: "string \<Rightarrow> string \<Rightarrow> string \<Rightarrow> Mount" where
  "NewXfsMount name source target =
     \<lparr>m_Name = name, m_Type = XfsMount, m_Source = source, m_Target = target\<rparr>"

definition NewFATMount :: "string \<Rightarrow> string \<Rightarrow> string \<Rightarrow> Mount" where
  "NewFATMount name source target =
     \<lparr>m_Name = name, m_Type = FATMount, m_Source = source, m_Target = target\<rparr>"

definition NewExt4Mount :: "string \<Rightarrow> string \<Rightarrow> string \<Rightarrow> Mount" where
  "NewExt4Mount name source target =
     \<lparr>m_Name = name, m_Type = Ext4Mount, m_Source = source, m_Target = target\<rparr>"

definition NewBtrfsMount :: "string \<Rightarrow> string \<Rightarrow> string \<Rightarrow> Mount" where
  "NewBtrfsMount name source target =
     \<lparr>m_Name = name, m_Type = BtrfsMount, m_Source = source, m_Target = target\<rparr>"

record CopyStagePath =
  cp_From :: string
  cp_To :: string

record CopyStageOptions =
  cso_Paths :: "CopyStagePath list"

subsection \<open>Library functions the resolver calls\<close>

text \<open>
  \<open>filepath.Base\<close> on a Unix path: the empty path gives \<open>"."\<close>; trailing slashes are
  stripped; the result is what follows the last remaining slash; a path of slashes only
  gives \<open>"/"\<close>.
\<close>

definition filepath_Base :: "string \<Rightarrow> string" where
  "filepath_Base path =
     (if path = [] then ''.''
      else
        let stripped = rev (dropWhile (\<lambda>c. c = CHR ''/'') (rev path));
            last_elem = rev (takeWhile (\<lambda>c. c \<noteq> CHR ''/'') (rev stripped))
        in if last_elem = [] then ''/'' else last_elem)"

text \<open>
  \<open>sort.Slice(s, less)\<close> reorders the slice so that no element is \<open>less\<close> than one
  before it; the library does not promise to keep equal elements in their order. The
  model is an insertion sort: each element in turn is moved left past the elements it
  is \<open>less\<close> than (the comparison is the parameter \<open>lt\<close>). What is proved of the sorted
  mounts uses only that the result is a rearrangement of the slice in which the keys
  ascend, which holds of every sorting algorithm.
\<close>

fun insert_less :: "('a \<Rightarrow> 'a \<Rightarrow> bool) \<Rightarrow> 'a \<Rightarrow> 'a list \<Rightarrow> 'a list" where
  "insert_less lt x [] = [x]"
| "insert_less lt x (y # ys) =
     (if lt x y then x # y # ys else y # insert_less lt x ys)"

definition sort_Slice :: "('a \<Rightarrow> 'a \<Rightarrow> bool) \<Rightarrow> 'a list \<Rightarrow> 'a list" where
  "sort_Slice lt xs = foldl (\<lambda>sorted_prefix x. insert_less lt x sorted_prefix) [] xs"

subsection \<open>copyFSTreeOptions\<close>

type_synonym Devices = "string \<rightharpoonup> Device"

text \<open>
  The loop over \<open>pt.Partitions\<close>, with the device map and the mount slice built so far.
  A partition with no filesystem is skipped; an unknown filesystem type panics (the
  message names the partition's type code, as the source does).
\<close>

fun copyFSTree_partitions ::
  "string \<Rightarrow> Partition list \<Rightarrow> Devices \<Rightarrow> Mount list \<Rightarrow> error + (Devices \<times> Mount list)" where
  "copyFSTree_partitions filename [] devices mounts = Inr (devices, mounts)"
| "copyFSTree_partitions filename (p # ps) devices mounts =
     (case p_Filesystem p of
        None \<Rightarrow> copyFSTree_partitions filename ps devices mounts
      | Some fs \<Rightarrow>
          let base = filepath_Base (fs_Mountpoint fs);
              name = (if base = ''/'' then ''root'' else base);
              devices' = devices(name \<mapsto> NewLoopbackDevice
                \<lparr>lo_Filename = filename, lo_Start = p_Start p, lo_Size = p_Size p\<rparr>)
          in if fs_Type fs = ''xfs'' then
               copyFSTree_partitions filename ps devices'
                 (mounts @ [NewXfsMount name name (fs_Mountpoint fs)])
             else if fs_Type fs = ''vfat'' then
               copyFSTree_partitions filename ps devices'
                 (mounts @ [NewFATMount name name (fs_Mountpoint fs)])
             else if fs_Type fs = ''ext4'' then
               copyFSTree_partitions filename ps devices'
                 (mounts @ [NewExt4Mount name name (fs_Mountpoint fs)])
             else if fs_Type fs = ''btrfs'' then
               copyFSTree_partitions filename ps devices'
                 (mounts @ [NewBtrfsMount name name (fs_Mountpoint fs)])
             else Inl (Panic (''unknown fs type '' @ p_Type p)))"

definition copyFSTreeOptions ::
  "string \<Rightarrow> string \<Rightarrow> PartitionTable \<Rightarrow> Device \<Rightarrow>
     error + (CopyStageOptions \<times> Devices \<times> Mount list)" where
  "copyFSTreeOptions inputName inputPipeline pt device =
     (case dev_Options device of
        OtherDeviceOptions \<Rightarrow>
          Inl (Panic ''copyStageOptions: failed to convert device options to loopback options'')
      | Loopback devOptions \<Rightarrow>
          (case copyFSTree_partitions (lo_Filename devOptions) (pt_Partitions pt) Map.empty [] of
             Inl e \<Rightarrow> Inl e
           | Inr (devices, mounts) \<Rightarrow>
               let stageMounts = sort_Slice (\<lambda>mi mj. m_Target mi < m_Target mj) mounts;
                   options = \<lparr>cso_Paths =
                     [\<lparr>cp_From = ''input://'' @ inputName @ ''/'', cp_To = ''mount://root/''\<rparr>]\<rparr>
               in Inr (options, devices, stageMounts)))"

subsection \<open>User provisioning: userStageOptions\<close>

record UserCustomization =
  uc_Name :: string
  uc_Description :: "string option"
  uc_Password :: "string option"
  uc_Key :: "string option"
  uc_Home :: "string option"
  uc_Shell :: "string option"
  uc_Groups :: "string list"
  uc_UID :: "int option"
  uc_GID :: "int option"

record UsersStageOptionsUser =
  u_UID :: "int option"
  u_GID :: "int option"
  u_Groups :: "string list"
  u_Description :: "string option"
  u_Home :: "string option"
  u_Shell :: "string option"
  u_Password :: "string option"
  u_Key :: "string option"

record UsersStageOptions =
  uso_Users :: "string \<rightharpoonup> UsersStageOptionsUser"

text \<open>
  The loop over \<open>users\<close>, with the map built so far. Package crypt is not among the
  sources: \<open>PasswordIsCrypted\<close> and \<open>CryptSHA512\<close> are parameters, the second returning
  either an error message or the hash. The loop variable \<open>c\<close> is a copy whose password
  is overwritten by the hash; a later user of the same name overwrites the map entry of
  an earlier one.
\<close>

fun userStage_users ::
  "(string \<Rightarrow> bool) \<Rightarrow> (string \<Rightarrow> string + string) \<Rightarrow> UserCustomization list \<Rightarrow>
     (string \<rightharpoonup> UsersStageOptionsUser) \<Rightarrow> error + (string \<rightharpoonup> UsersStageOptionsUser)" where
  "userStage_users PasswordIsCrypted CryptSHA512 [] Users = Inr Users"
| "userStage_users PasswordIsCrypted CryptSHA512 (c # cs) Users =
     (case
        (case uc_Password c of
           None \<Rightarrow> Inr c
         | Some password \<Rightarrow>
             if \<not> PasswordIsCrypted password then
               (case CryptSHA512 password of
                  Inl err \<Rightarrow> Inl (Err err)
                | Inr cryptedPassword \<Rightarrow> Inr (c\<lparr>uc_Password := Some cryptedPassword\<rparr>))
             else Inr c)
      of
        Inl err \<Rightarrow> Inl err
      | Inr c' \<Rightarrow>
          userStage_users PasswordIsCrypted CryptSHA512 cs
            (Users(uc_Name c' \<mapsto>
               \<lparr>u_UID = uc_UID c', u_GID = uc_GID c', u_Groups = uc_Groups c',
                u_Description = uc_Description c', u_Home = uc_Home c',
                u_Shell = uc_Shell c', u_Password = uc_Password c', u_Key = uc_Key c'\<rparr>)))"

definition userStageOptions ::
  "(string \<Rightarrow> bool) \<Rightarrow> (string \<Rightarrow> string + string) \<Rightarrow> UserCustomization list \<Rightarrow>
     error + UsersStageOptions" where
  "userStageOptions PasswordIsCrypted CryptSHA512 users =
     (case userStage_users PasswordIsCrypted CryptSHA512 users Map.empty of
        Inl err \<Rightarrow> Inl err
      | Inr Users \<Rightarrow> Inr \<lparr>uso_Users = Users\<rparr>)"

subsection \<open>First-boot script: usersFirstBootOptions\<close>

record FirstBootStageOptions =
  fb_Commands :: "string list"
  fb_WaitForNetwork :: bool

text \<open>
  A \<open>range\<close> over a Go map visits every key once, in an order the language leaves open
  and the runtime varies from one loop to the next. The order of a run is the list
  \<open>keys\<close>: any list without repetition whose elements are the keys of the map.
\<close>

definition map_iteration :: "('k \<rightharpoonup> 'v) \<Rightarrow> 'k list \<Rightarrow> bool" where
  "map_iteration m keys \<longleftrightarrow> distinct keys \<and> set keys = dom m"

text \<open>
  The loop over \<open>usersStageOptions.Users\<close> in the order \<open>keys\<close>, with the commands
  appended so far. \<open>Join\<close> is \<open>filepath.Join\<close> and \<open>Quote\<close> is what the verb \<open>%q\<close>
  of \<open>fmt.Sprintf\<close> prints for a string; both are library functions and parameters here.
  The verb \<open>%s\<close> prints a string as it is.
\<close>

fun usersFirstBoot_users ::
  "(string list \<Rightarrow> string) \<Rightarrow> (string \<Rightarrow> string) \<Rightarrow> string \<Rightarrow>
     (string \<rightharpoonup> UsersStageOptionsUser) \<Rightarrow> string list \<Rightarrow> string list \<Rightarrow> string list" where
  "usersFirstBoot_users Join Quote varhome Users [] cmds = cmds"
| "usersFirstBoot_users Join Quote varhome Users (name # keys) cmds =
     (case Users name of
        None \<Rightarrow> usersFirstBoot_users Join Quote varhome Users keys cmds
      | Some user \<Rightarrow>
          (case u_Key user of
             None \<Rightarrow> usersFirstBoot_users Join Quote varhome Users keys cmds
           | Some key \<Rightarrow>
               let sshdir = Join [varhome, name, ''.ssh'']
               in usersFirstBoot_users Join Quote varhome Users keys
                    (cmds @
                     [''mkdir -p '' @ sshdir,
                      ''sh -c 'echo '' @ Quote key @ '' >> '' @
                        Quote (Join [sshdir, ''authorized_keys'']) @ [CHR 0x27],
                      ''chown '' @ name @ '':'' @ name @ '' -Rc '' @ sshdir])))"

definition usersFirstBootOptions ::
  "(string list \<Rightarrow> string) \<Rightarrow> (string \<Rightarrow> string) \<Rightarrow> string list \<Rightarrow> UsersStageOptions \<Rightarrow>
     FirstBootStageOptions" where
  "usersFirstBootOptions Join Quote keys usersStageOptions =
     (let varhome = Join [''/var'', ''home''];
          cmds = usersFirstBoot_users Join Quote varhome (uso_Users usersStageOptions) keys [];
          cmds = cmds @ [''restorecon -rvF '' @ varhome]
      in \<lparr>fb_Commands = cmds, fb_WaitForNetwork = False\<rparr>)"

subsection \<open>Initramfs: dracutStageOptions\<close>

text \<open>
  Modelled from the spec: the architecture names \<open>distro.X86_64ArchName\<close> and
  \<open>distro.Aarch64ArchName\<close> are declared in package distro, which is not among the
  sources. They are the names \<open>grubISOStageOptions\<close> spells out for the same two
  architecture families.
\<close>

definition X86_64ArchName :: string where
  "X86_64ArchName = ''x86_64''"

definition Aarch64ArchName :: string where
  "Aarch64ArchName = ''aarch64''"

record DracutStageOptions =
  dr_Kernel :: "string list"
  dr_Modules :: "string list"
  dr_Install :: "string list"

definition dracutStageOptions :: "string \<Rightarrow> string \<Rightarrow> string list \<Rightarrow> DracutStageOptions" where
  "dracutStageOptions kernelVer arch additionalModules =
     (let kernel = [kernelVer];
          modules =
            [''bash'', ''systemd'', ''fips'', ''systemd-initrd'', ''modsign'', ''nss-softokn'',
             ''rdma'', ''rngd'', ''i18n'', ''convertfs'', ''network-manager'', ''network'',
             ''ifcfg'', ''url-lib'', ''drm'', ''plymouth'', ''prefixdevname'',
             ''prefixdevname-tools'', ''crypt'', ''dm'', ''dmsquash-live'', ''kernel-modules'',
             ''kernel-modules-extra'', ''kernel-network-modules'', ''livenet'', ''lvm'',
             ''mdraid'', ''multipath'', ''qemu'', ''qemu-net'', ''fcoe'', ''fcoe-uefi'', ''iscsi'',
             ''lunmask'', ''nfs'', ''resume'', ''rootfs-block'', ''terminfo'', ''udev-rules'',
             ''dracut-systemd'', ''pollcdrom'', ''usrmount'', ''base'', ''fs-lib'', ''img-lib'',
             ''shutdown'', ''uefi-lib''];
          modules = (if arch = X86_64ArchName then modules @ [''biosdevname''] else modules);
          modules = modules @ additionalModules
      in \<lparr>dr_Kernel = kernel, dr_Modules = modules, dr_Install = [''/.buildstamp'']\<rparr>)"

subsection \<open>Bootable ISOs: bootISOMonoStageOptions and grubISOStageOptions\<close>

definition kspath :: string where
  "kspath = ''/osbuild.ks''"

record Product =
  prod_Name :: string
  prod_Version :: string

record EFI =
  efi_Architectures :: "string list"
  efi_Vendor :: string

record ISOLinux =
  il_Enabled :: bool
  il_Debug :: bool

record FSCompressionOptions =
  fco_BCJ :: string

record FSCompression =
  fc_Method :: string
  fc_Options :: "FSCompressionOptions option"

record RootFS =
  rfs_Size :: "64 word"
  rfs_Compression :: FSCompression

record BootISOMonoStageOptions =
  bim_Product :: Product
  bim_ISOLabel :: string
  bim_Kernel :: string
  bim_KernelOpts :: string
  bim_EFI :: EFI
  bim_ISOLinux :: ISOLinux
  bim_Templates :: string
  bim_RootFS :: RootFS

text \<open>
  \<open>osbuild.BCJOption\<close> (package osbuild2, not among the sources) is the parameter
  \<open>BCJOption\<close>: the name of the secondary compression filter of an architecture, empty
  when there is none.
\<close>

definition bootISOMonoStageOptions ::
  "(string \<Rightarrow> string) \<Rightarrow> string \<Rightarrow> string \<Rightarrow> string \<Rightarrow> string \<Rightarrow> string \<Rightarrow> string \<Rightarrow>
     error + BootISOMonoStageOptions" where
  "bootISOMonoStageOptions BCJOption kernelVer arch vendor product osVersion isolabel =
     (let bcj = BCJOption arch;
          comprOptions = (if bcj \<noteq> [] then \<lparr>fco_BCJ = bcj\<rparr> else \<lparr>fco_BCJ = []\<rparr>)
      in case (if arch = X86_64ArchName then Inr [''IA32'', ''X64'']
               else if arch = Aarch64ArchName then Inr [''AA64'']
               else Inl (Panic ''unsupported architecture'')) of
           Inl e \<Rightarrow> Inl e
         | Inr architectures \<Rightarrow>
             Inr \<lparr>bim_Product = \<lparr>prod_Name = product, prod_Version = osVersion\<rparr>,
                  bim_ISOLabel = isolabel,
                  bim_Kernel = kernelVer,
                  bim_KernelOpts = ''inst.ks=hd:LABEL='' @ isolabel @ '':'' @ kspath,
                  bim_EFI = \<lparr>efi_Architectures = architectures, efi_Vendor = vendor\<rparr>,
                  bim_ISOLinux = \<lparr>il_Enabled = (arch = X86_64ArchName), il_Debug = False\<rparr>,
                  bim_Templates = ''80-rhel'',
                  bim_RootFS = \<lparr>rfs_Size = 9216,
                    rfs_Compression = \<lparr>fc_Method = ''xz'', fc_Options = Some comprOptions\<rparr>\<rparr>\<rparr>)"

record ISOKernel =
  ik_Dir :: string
  ik_Opts :: "string list"

record GrubISOStageOptions =
  gi_Product :: Product
  gi_ISOLabel :: string
  gi_Kernel :: ISOKernel
  gi_Architectures :: "string list"
  gi_Vendor :: string

definition grubISOStageOptions ::
  "string \<Rightarrow> string \<Rightarrow> string \<Rightarrow> string \<Rightarrow> string \<Rightarrow> string \<Rightarrow> string \<Rightarrow>
     error + GrubISOStageOptions" where
  "grubISOStageOptions installDevice kernelVer arch vendor product osVersion isolabel =
     (case (if arch = ''x86_64'' then Inr [''IA32'', ''X64'']
            else if arch = ''aarch64'' then Inr [''AA64'']
            else Inl (Panic ''unsupported architecture'')) of
        Inl e \<Rightarrow> Inl e
      | Inr architectures \<Rightarrow>
          Inr \<lparr>gi_Product = \<lparr>prod_Name = product, prod_Version = osVersion\<rparr>,
               gi_ISOLabel = isolabel,
               gi_Kernel = \<lparr>ik_Dir = ''/images/pxeboot'',
                 ik_Opts = [''rd.neednet=1'', ''console=tty0'', ''console=ttyS0'',
                   ''systemd.log_target=console'', ''systemd.journald.forward_to_console=1'',
                   ''edge.liveiso='' @ isolabel,
                   ''coreos.inst.install_dev='' @ installDevice,
                   ''coreos.inst.image_file=/run/media/iso/disk.img.xz'',
                   ''coreos.inst.insecure'']\<rparr>,
               gi_Architectures = architectures,
               gi_Vendor = vendor\<rparr>)"

subsection \<open>Primary bootloader: grub2StageOptions\<close>

record KernelCustomization =
  kc_Append :: string

text \<open>
  A \<open>uuid.UUID\<close> is an array of 16 bytes. \<open>uuid.MustParse\<close> (an external library)
  panics when \<open>uuid.Parse\<close> returns an error; \<open>Parse\<close> is a parameter that returns either
  the error's text or the identifier.
\<close>

type_synonym UUID = "128 word"

definition uuid_MustParse :: "(string \<Rightarrow> string + UUID) \<Rightarrow> string \<Rightarrow> error + UUID" where
  "uuid_MustParse Parse s =
     (case Parse s of
        Inl err \<Rightarrow> Inl (Panic (''uuid: Parse('' @ s @ ''): '' @ err))
      | Inr uuid \<Rightarrow> Inr uuid)"

record GRUB2UEFI =
  uefi_Vendor :: string
  uefi_Install :: bool

record GRUB2StageOptions =
  g_RootFilesystemUUID :: UUID
  g_BootFilesystemUUID :: "UUID option"
  g_KernelOptions :: string
  g_Legacy :: string
  g_UEFI :: "GRUB2UEFI option"
  g_SavedEntry :: string

text \<open>
  The record starts from the composite literal (fields it does not name are zero: no boot
  identifier, no UEFI record, the empty saved entry) and is then updated statement by
  statement. Reading \<open>Filesystem.UUID\<close> of a partition without a filesystem is a nil
  dereference. The parameter \<open>kernel\<close> of the source is \<open>kernelCust\<close>.
\<close>

definition grub2StageOptions ::
  "(string \<Rightarrow> string + UUID) \<Rightarrow> Partition option \<Rightarrow> Partition option \<Rightarrow> string \<Rightarrow>
     KernelCustomization option \<Rightarrow> string \<Rightarrow> bool \<Rightarrow> string \<Rightarrow> string \<Rightarrow> bool \<Rightarrow>
     error + GRUB2StageOptions" where
  "grub2StageOptions Parse rootPartition bootPartition kernelOptions kernelCust kernelVer
       uefi legacy vendor install =
     (case rootPartition of
        None \<Rightarrow>
          Inl (Panic ''root partition must be defined for grub2 stage, this is a programming error'')
      | Some root \<Rightarrow>
          (case p_Filesystem root of
             None \<Rightarrow> Inl nil_dereference
           | Some rootFs \<Rightarrow>
               (case uuid_MustParse Parse (fs_UUID rootFs) of
                  Inl e \<Rightarrow> Inl e
                | Inr rootFsUUID \<Rightarrow>
                    let stageOptions =
                          \<lparr>g_RootFilesystemUUID = rootFsUUID,
                           g_BootFilesystemUUID = None,
                           g_KernelOptions = kernelOptions,
                           g_Legacy = legacy,
                           g_UEFI = None,
                           g_SavedEntry = []\<rparr>
                    in case
                         (case bootPartition of
                            None \<Rightarrow> Inr stageOptions
                          | Some boot \<Rightarrow>
                              (case p_Filesystem boot of
                                 None \<Rightarrow> Inl nil_dereference
                               | Some bootFs \<Rightarrow>
                                   (case uuid_MustParse Parse (fs_UUID bootFs) of
                                      Inl e \<Rightarrow> Inl e
                                    | Inr bootFsUUID \<Rightarrow>
                                        Inr (stageOptions\<lparr>g_BootFilesystemUUID := Some bootFsUUID\<rparr>))))
                       of
                         Inl e \<Rightarrow> Inl e
                       | Inr stageOptions \<Rightarrow>
                           let stageOptions =
                                 (if uefi then
                                    stageOptions\<lparr>g_UEFI :=
                                      Some \<lparr>uefi_Vendor = vendor, uefi_Install = install\<rparr>\<rparr>
                                  else stageOptions);
                               stageOptions =
                                 (if \<not> uefi then stageOptions\<lparr>g_Legacy := legacy\<rparr>
                                  else stageOptions);
                               stageOptions =
                                 (case kernelCust of
                                    None \<Rightarrow> stageOptions
                                  | Some k \<Rightarrow>
                                      let stageOptions =
                                            (if kc_Append k \<noteq> [] then
                                               stageOptions\<lparr>g_KernelOptions :=
                                                 g_KernelOptions stageOptions @ '' '' @ kc_Append k\<rparr>
                                             else stageOptions)
                                      in stageOptions\<lparr>g_SavedEntry :=
                                           ''ffffffffffffffffffffffffffffffff-'' @ kernelVer\<rparr>)
                           in Inr stageOptions)))"

subsection \<open>Boot-sector installer: grub2InstStageOptions\<close>

record CoreMkImage =
  core_Type :: string
  core_PartLabel :: string
  core_Filesystem :: string

record PrefixPartition =
  pre_Type :: string
  pre_PartLabel :: string
  pre_Number :: "64 word"
  pre_Path :: string

record Grub2InstStageOptions =
  gis_Filename :: string
  gis_Platform :: string
  gis_Location :: "64 word"
  gis_Core :: CoreMkImage
  gis_Prefix :: PrefixPartition

text \<open>
  The method \<open>BootPartitionIndex\<close> of the partition table (package disk) is not among
  the sources; the installer takes it as a parameter, so what is proved of the installer
  holds for every lookup. Indexing \<open>pt.Partitions\<close> outside its range and reading the
  filesystem of a partition that has none are run-time panics.
\<close>

definition grub2InstStageOptions ::
  "(PartitionTable \<Rightarrow> int) \<Rightarrow> string \<Rightarrow> PartitionTable \<Rightarrow> string \<Rightarrow>
     error + Grub2InstStageOptions" where
  "grub2InstStageOptions BootPartitionIndex filename pt platform =
     (let bootPartIndex = BootPartitionIndex pt
      in if bootPartIndex = - 1 then
           Inl (Panic ''failed to find boot or root partition for grub2.inst stage'')
         else if bootPartIndex < 0 \<or> int (length (pt_Partitions pt)) \<le> bootPartIndex then
           Inl index_out_of_range
         else
           let bootPart = pt_Partitions pt ! nat bootPartIndex
           in case p_Filesystem bootPart of
                None \<Rightarrow> Inl nil_dereference
              | Some bootFs \<Rightarrow>
                  let prefixPath = (if fs_Mountpoint bootFs = ''/boot'' then ''/grub2''
                                    else ''/boot/grub2'');
                      core = \<lparr>core_Type = ''mkimage'',
                              core_PartLabel = pt_Type pt,
                              core_Filesystem = fs_Type bootFs\<rparr>;
                      prefix = \<lparr>pre_Type = ''partition'',
                                pre_PartLabel = pt_Type pt,
                                pre_Number = word_of_int bootPartIndex,
                                pre_Path = prefixPath\<rparr>
                  in Inr \<lparr>gis_Filename = filename,
                          gis_Platform = platform,
                          gis_Location = p_Start (pt_Partitions pt ! 0),
                          gis_Core = core,
                          gis_Prefix = prefix\<rparr>)"

text \<open>
  Modelled from the spec: the lookup \<open>BootPartitionIndex\<close> of package disk is not among
  the sources. The data model describes it: the first partition whose filesystem is
  mounted at \<open>"/boot"\<close> or \<open>"/"\<close> determines the boot partition index, and a lookup that
  finds none returns a sentinel, which the installers compare with \<open>-1\<close>.
\<close>

fun BootPartitionIndex_from :: "int \<Rightarrow> Partition list \<Rightarrow> int" where
  "BootPartitionIndex_from idx [] = - 1"
| "BootPartitionIndex_from idx (p # ps) =
     (case p_Filesystem p of
        None \<Rightarrow> BootPartitionIndex_from (idx + 1) ps
      | Some fs \<Rightarrow>
          if fs_Mountpoint fs = ''/boot'' \<or> fs_Mountpoint fs = ''/'' then idx
          else BootPartitionIndex_from (idx + 1) ps)"

definition BootPartitionIndex :: "PartitionTable \<Rightarrow> int" where
  "BootPartitionIndex pt = BootPartitionIndex_from 0 (pt_Partitions pt)"

subsection \<open>Example inputs\<close>

text \<open>
  A GPT layout with a BIOS boot partition (no filesystem), an EFI system partition, a
  boot partition and a root partition, in the order they lie on the disk.
\<close>

definition example_table :: PartitionTable where
  "example_table =
     \<lparr>pt_UUID = ''D209C89E-EA5E-4FBD-B161-B461CCE297E0'', pt_Type = ''gpt'',
      pt_Partitions =
        [\<lparr>p_Start = 2048, p_Size = 2048, p_Type = ''21686148-6449-6E6F-744E-656564454649'',
          p_Bootable = True, p_UUID = ''FAC7F1FB-3E8D-4137-A512-961DE09A5549'',
          p_Filesystem = None\<rparr>,
         \<lparr>p_Start = 4096, p_Size = 204800, p_Type = ''C12A7328-F81F-11D2-BA4B-00A0C93EC93B'',
          p_Bootable = False, p_UUID = ''68B2905B-DF3E-4FB3-80FA-49D1E773AA33'',
          p_Filesystem = Some \<lparr>fs_Type = ''vfat'', fs_UUID = ''7B77-95E7'',
            fs_Mountpoint = ''/boot/efi''\<rparr>\<rparr>,
         \<lparr>p_Start = 208896, p_Size = 1048576, p_Type = ''0FC63DAF-8483-4772-8E79-3D69D8477DE4'',
          p_Bootable = False, p_UUID = ''CB07C243-BC44-4717-853E-28852021225B'',
          p_Filesystem = Some \<lparr>fs_Type = ''xfs'',
            fs_UUID = ''0194fdc2-fa2f-4cc0-81d3-ff12045b73c8'', fs_Mountpoint = ''/boot''\<rparr>\<rparr>,
         \<lparr>p_Start = 1257472, p_Size = 19713536,
          p_Type = ''0FC63DAF-8483-4772-8E79-3D69D8477DE4'',
          p_Bootable = False, p_UUID = ''6264D520-3FB9-423F-8AB8-7A0A8E3D3562'',
          p_Filesystem = Some \<lparr>fs_Type = ''xfs'',
            fs_UUID = ''efe8afea-c0a8-45dc-8e6e-499279f6fa5d'', fs_Mountpoint = ''/''\<rparr>\<rparr>]\<rparr>"

text \<open>The same layout without the boot partition: the boot files live on the root filesystem.\<close>

definition example_table_no_boot :: PartitionTable where
  "example_table_no_boot =
     \<lparr>pt_UUID = ''D209C89E-EA5E-4FBD-B161-B461CCE297E0'', pt_Type = ''gpt'',
      pt_Partitions =
        [\<lparr>p_Start = 2048, p_Size = 2048, p_Type = ''21686148-6449-6E6F-744E-656564454649'',
          p_Bootable = True, p_UUID = ''FAC7F1FB-3E8D-4137-A512-961DE09A5549'',
          p_Filesystem = None\<rparr>,
         \<lparr>p_Start = 4096, p_Size = 204800, p_Type = ''C12A7328-F81F-11D2-BA4B-00A0C93EC93B'',
          p_Bootable = False, p_UUID = ''68B2905B-DF3E-4FB3-80FA-49D1E773AA33'',
          p_Filesystem = Some \<lparr>fs_Type = ''vfat'', fs_UUID = ''7B77-95E7'',
            fs_Mountpoint = ''/boot/efi''\<rparr>\<rparr>,
         \<lparr>p_Start = 208896, p_Size = 20762112,
          p_Type = ''0FC63DAF-8483-4772-8E79-3D69D8477DE4'',
          p_Bootable = False, p_UUID = ''6264D520-3FB9-423F-8AB8-7A0A8E3D3562'',
          p_Filesystem = Some \<lparr>fs_Type = ''xfs'',
            fs_UUID = ''efe8afea-c0a8-45dc-8e6e-499279f6fa5d'', fs_Mountpoint = ''/''\<rparr>\<rparr>]\<rparr>"

definition example_device :: Device where
  "example_device =
     NewLoopbackDevice \<lparr>lo_Filename = ''disk.img'', lo_Start = 0, lo_Size = 0\<rparr>"

definition example_boot :: Partition where
  "example_boot = pt_Partitions example_table ! 2"

definition example_root :: Partition where
  "example_root = pt_Partitions example_table ! 3"

text \<open>
  A stand-in for \<open>uuid.Parse\<close> that knows the two filesystem identifiers of the example
  layout in their canonical form (the 16 bytes read as one number) and rejects every
  other string.
\<close>

definition example_Parse :: "string \<Rightarrow> string + UUID" where
  "example_Parse s =
     (if s = ''efe8afea-c0a8-45dc-8e6e-499279f6fa5d'' then
        Inr 0xefe8afeac0a845dc8e6e499279f6fa5d
      else if s = ''0194fdc2-fa2f-4cc0-81d3-ff12045b73c8'' then
        Inr 0x0194fdc2fa2f4cc081d3ff12045b73c8
      else Inl ''invalid UUID format'')"

text \<open>
  A stand-in for \<open>osbuild.BCJOption\<close>: a filter for each of the two architecture
  families of the ISO generators, none for any other architecture.
\<close>

definition example_BCJOption :: "string \<Rightarrow> string" where
  "example_BCJOption arch =
     (if arch = ''x86_64'' then ''x86'' else if arch = ''aarch64'' then ''arm'' else [])"

text \<open>
  Stand-ins for package crypt: a password counts as crypted when it starts with the
  marker of SHA-512 crypt, and the hash is known for one phrase and fails for every
  other.
\<close>

definition example_PasswordIsCrypted :: "string \<Rightarrow> bool" where
  "example_PasswordIsCrypted s \<longleftrightarrow> take 3 s = ''$6$''"

definition example_CryptSHA512 :: "string \<Rightarrow> string + string" where
  "example_CryptSHA512 phrase =
     (if phrase = ''hunter2'' then Inr ''$6$GhcSx0RdVG2yPeVu$iJ3f1wqFtzdkVZ1vAf8o''
      else Inl ''crypt: unsupported phrase'')"

text \<open>
  Three users: one with a plaintext password and a key, one with a crypted password and
  a key, one with a plaintext password the stand-in hash fails on.
\<close>

definition example_alice :: UserCustomization where
  "example_alice =
     \<lparr>uc_Name = ''alice'', uc_Description = None, uc_Password = Some ''hunter2'',
      uc_Key = Some ''ssh-ed25519 AAAAC3NzaC1lZDI1NTE5 alice'', uc_Home = None,
      uc_Shell = None, uc_Groups = [''wheel''], uc_UID = Some 1000, uc_GID = None\<rparr>"

definition example_bob :: UserCustomization where
  "example_bob =
     \<lparr>uc_Name = ''bob'', uc_Description = Some ''Bob'',
      uc_Password = Some ''$6$Wn0wS7Qk$3vJXr5dQpQ0m'',
      uc_Key = Some ''ssh-rsa AAAAB3NzaC1yc2E bob'', uc_Home = None,
      uc_Shell = Some ''/bin/zsh'', uc_Groups = [], uc_UID = None, uc_GID = None\<rparr>"

definition example_carol :: UserCustomization where
  "example_carol =
     \<lparr>uc_Name = ''carol'', uc_Description = None, uc_Password = Some ''letmein'',
      uc_Key = None, uc_Home = None, uc_Shell = None, uc_Groups = [], uc_UID = None,
      uc_GID = None\<rparr>"

text \<open>The users stage options of the first two users.\<close>

definition example_users_options :: UsersStageOptions where
  "example_users_options =
     \<lparr>uso_Users =
        [''alice'' \<mapsto>
           \<lparr>u_UID = Some 1000, u_GID = None, u_Groups = [''wheel''], u_Description = None,
            u_Home = None, u_Shell = None,
            u_Password = Some ''$6$GhcSx0RdVG2yPeVu$iJ3f1wqFtzdkVZ1vAf8o'',
            u_Key = Some ''ssh-ed25519 AAAAC3NzaC1lZDI1NTE5 alice''\<rparr>,
         ''bob'' \<mapsto>
           \<lparr>u_UID = None, u_GID = None, u_Groups = [], u_Description = Some ''Bob'',
            u_Home = None, u_Shell = Some ''/bin/zsh'',
            u_Password = Some ''$6$Wn0wS7Qk$3vJXr5dQpQ0m'',
            u_Key = Some ''ssh-rsa AAAAB3NzaC1yc2E bob''\<rparr>]\<rparr>"

text \<open>
  A user whose name, description and group are the very string of its plaintext
  password, and two users of one name, both with a crypted password.
\<close>

definition example_eve :: UserCustomization where
  "example_eve =
     \<lparr>uc_Name = ''hunter2'', uc_Description = Some ''hunter2'',
      uc_Password = Some ''hunter2'', uc_Key = None, uc_Home = None, uc_Shell = None,
      uc_Groups = [''hunter2''], uc_UID = None, uc_GID = None\<rparr>"

definition example_dave_first :: UserCustomization where
  "example_dave_first =
     \<lparr>uc_Name = ''dave'', uc_Description = None,
      uc_Password = Some ''$6$first$Qm1RkY0tq2'', uc_Key = None, uc_Home = None,
      uc_Shell = None, uc_Groups = [], uc_UID = None, uc_GID = None\<rparr>"

definition example_dave_second :: UserCustomization where
  "example_dave_second =
     \<lparr>uc_Name = ''dave'', uc_Description = None,
      uc_Password = Some ''$6$second$Zb7xPw4LhE'', uc_Key = None, uc_Home = None,
      uc_Shell = None, uc_Groups = [], uc_UID = None, uc_GID = None\<rparr>"

text \<open>
  A table the installer accepts although it is malformed: the BIOS boot partition and
  the boot partition both start at sector 2048.
\<close>

definition example_table_shared_start :: PartitionTable where
  "example_table_shared_start =
     \<lparr>pt_UUID = ''D209C89E-EA5E-4FBD-B161-B461CCE297E0'', pt_Type = ''gpt'',
      pt_Partitions =
        [\<lparr>p_Start = 2048, p_Size = 2048, p_Type = ''21686148-6449-6E6F-744E-656564454649'',
          p_Bootable = True, p_UUID = ''FAC7F1FB-3E8D-4137-A512-961DE09A5549'',
          p_Filesystem = None\<rparr>,
         \<lparr>p_Start = 2048, p_Size = 1048576, p_Type = ''0FC63DAF-8483-4772-8E79-3D69D8477DE4'',
          p_Bootable = False, p_UUID = ''CB07C243-BC44-4717-853E-28852021225B'',
          p_Filesystem = Some \<lparr>fs_Type = ''xfs'',
            fs_UUID = ''0194fdc2-fa2f-4cc0-81d3-ff12045b73c8'', fs_Mountpoint = ''/boot''\<rparr>\<rparr>]\<rparr>"

section \<open>Properties\<close>

subsection \<open>Sorting\<close>

lemma mset_insert_less: "mset (insert_less lt x ys) = add_mset x (mset ys)"
  by (induction ys) simp_all

lemma set_insert_less: "set (insert_less lt x ys) = insert x (set ys)"
  by (induction ys) auto

lemma sorted_insert_less:
  fixes key :: "'a \<Rightarrow> 'k::linorder"
  assumes "sorted (map key ys)"
  shows "sorted (map key (insert_less (\<lambda>a b. key a < key b) x ys))"
  using assms
  by (induction ys) (auto simp: set_insert_less)

lemma foldl_insert_less_mset:
  "mset (foldl (\<lambda>acc x. insert_less lt x acc) acc xs) = mset acc + mset xs"
  by (induction xs arbitrary: acc) (simp_all add: mset_insert_less)

lemma foldl_insert_less_sorted:
  fixes key :: "'a \<Rightarrow> 'k::linorder"
  shows "sorted (map key acc) \<Longrightarrow>
    sorted (map key (foldl (\<lambda>acc x. insert_less (\<lambda>a b. key a < key b) x acc) acc xs))"
  by (induction xs arbitrary: acc) (simp_all add: sorted_insert_less)

lemma mset_sort_Slice: "mset (sort_Slice lt xs) = mset xs"
  by (simp add: sort_Slice_def foldl_insert_less_mset)

lemma sorted_sort_Slice:
  fixes key :: "'a \<Rightarrow> 'k::linorder"
  shows "sorted (map key (sort_Slice (\<lambda>a b. key a < key b) xs))"
  by (simp add: sort_Slice_def foldl_insert_less_sorted)

lemma strict_prefix_less:
  fixes xs ys :: "'a::linorder list"
  shows "strict_prefix xs ys \<Longrightarrow> xs < ys"
proof (induction xs arbitrary: ys)
  case Nil
  then show ?case by (cases ys) simp_all
next
  case (Cons x xs)
  then show ?case by (cases ys) (auto simp: strict_prefix_def)
qed

lemma sorted_prefix_before:
  fixes ts :: "'a::linorder list list"
  assumes "sorted ts" and "i < length ts" and "j < length ts"
    and "strict_prefix (ts ! i) (ts ! j)"
  shows "i < j"
proof (rule ccontr)
  assume "\<not> i < j"
  then have "j \<le> i" by simp
  with assms(1,2) have "ts ! j \<le> ts ! i"
    by (simp add: sorted_nth_mono)
  moreover from assms(4) have "ts ! i < ts ! j"
    by (rule strict_prefix_less)
  ultimately show False by simp
qed

subsection \<open>The mount list of copyFSTreeOptions\<close>

lemma copyFSTree_partitions_targets:
  "copyFSTree_partitions f ps devices mounts = Inr (devices', mounts') \<Longrightarrow>
   map m_Target mounts' =
     map m_Target mounts @ map fs_Mountpoint (List.map_filter p_Filesystem ps)"
  by (induction ps arbitrary: devices mounts)
     (auto simp: Let_def NewXfsMount_def NewFATMount_def NewExt4Mount_def NewBtrfsMount_def
           split: option.splits if_splits)

text \<open>
  C1. Whenever \<open>copyFSTreeOptions\<close> returns, its mount list holds one mount for each
  partition that carries a filesystem, at that filesystem's mountpoint; the targets
  ascend in the lexicographic order of strings; and a mount whose target is a proper
  prefix of another mount's target stands before it. A path that is a parent directory
  of another is a proper prefix of it as a string, so parents stand before their
  children (\<open>"/"\<close> before \<open>"/boot"\<close> before \<open>"/boot/efi"\<close>).
\<close>

theorem copyFSTreeOptions_mounts_sorted:
  assumes "copyFSTreeOptions inputName inputPipeline pt device = Inr (options, devices, mounts)"
  shows "mset (map m_Target mounts) =
           mset (map fs_Mountpoint (List.map_filter p_Filesystem (pt_Partitions pt)))
         \<and> sorted (map m_Target mounts)
         \<and> (\<forall>i j. i < length mounts \<and> j < length mounts \<and>
               strict_prefix (m_Target (mounts ! i)) (m_Target (mounts ! j)) \<longrightarrow> i < j)"
proof -
  from assms obtain devOptions :: LoopbackDeviceOptions and built where
    loop: "copyFSTree_partitions (lo_Filename devOptions) (pt_Partitions pt) Map.empty [] =
             Inr (devices, built)"
    and sorted_built: "mounts = sort_Slice (\<lambda>mi mj. m_Target mi < m_Target mj) built"
    by (fastforce simp: copyFSTreeOptions_def Let_def
          split: DeviceOptions.splits sum.splits prod.splits)
  have perm: "mset mounts = mset built"
    by (simp add: sorted_built mset_sort_Slice)
  have "mset (map m_Target mounts) = mset (map m_Target built)"
    using perm by (metis mset_map)
  also have "map m_Target built =
      map fs_Mountpoint (List.map_filter p_Filesystem (pt_Partitions pt))"
    using copyFSTree_partitions_targets [OF loop] by simp
  finally have content: "mset (map m_Target mounts) =
      mset (map fs_Mountpoint (List.map_filter p_Filesystem (pt_Partitions pt)))" .
  have asc: "sorted (map m_Target mounts)"
    unfolding sorted_built by (rule sorted_sort_Slice)
  have "i < j" if "i < length mounts" "j < length mounts"
      "strict_prefix (m_Target (mounts ! i)) (m_Target (mounts ! j))" for i j
    using sorted_prefix_before [of "map m_Target mounts" i j] asc that by simp
  with content asc show ?thesis by blast
qed

lemma example_table_mounts:
  "copyFSTreeOptions ''tree'' ''os'' example_table example_device =
     Inr (\<lparr>cso_Paths = [\<lparr>cp_From = ''input://tree/'', cp_To = ''mount://root/''\<rparr>]\<rparr>,
          [''efi'' \<mapsto> NewLoopbackDevice
             \<lparr>lo_Filename = ''disk.img'', lo_Start = 4096, lo_Size = 204800\<rparr>,
           ''boot'' \<mapsto> NewLoopbackDevice
             \<lparr>lo_Filename = ''disk.img'', lo_Start = 208896, lo_Size = 1048576\<rparr>,
           ''root'' \<mapsto> NewLoopbackDevice
             \<lparr>lo_Filename = ''disk.img'', lo_Start = 1257472, lo_Size = 19713536\<rparr>],
          [NewXfsMount ''root'' ''root'' ''/'',
           NewXfsMount ''boot'' ''boot'' ''/boot'',
           NewFATMount ''efi'' ''efi'' ''/boot/efi''])"
  by (simp add: copyFSTreeOptions_def example_table_def example_device_def
        NewLoopbackDevice_def filepath_Base_def sort_Slice_def Let_def
        NewXfsMount_def NewFATMount_def)

theorem copyFSTreeOptions_mounts_sorted_witness:
  "\<exists>options devices mounts.
     copyFSTreeOptions ''tree'' ''os'' example_table example_device =
       Inr (options, devices, mounts)
     \<and> map m_Target mounts = [''/'', ''/boot'', ''/boot/efi'']
     \<and> mset (map m_Target mounts) =
         mset (map fs_Mountpoint (List.map_filter p_Filesystem (pt_Partitions example_table)))
     \<and> sorted (map m_Target mounts)
     \<and> strict_prefix (m_Target (mounts ! 0)) (m_Target (mounts ! 2))
     \<and> (0::nat) < 2"
proof -
  let ?mounts = "[NewXfsMount ''root'' ''root'' ''/'', NewXfsMount ''boot'' ''boot'' ''/boot'',
                  NewFATMount ''efi'' ''efi'' ''/boot/efi'']"
  note sorted = copyFSTreeOptions_mounts_sorted [OF example_table_mounts]
  have targets: "map m_Target ?mounts = [''/'', ''/boot'', ''/boot/efi'']"
    by (simp add: NewXfsMount_def NewFATMount_def)
  have pre: "strict_prefix (m_Target (?mounts ! 0)) (m_Target (?mounts ! 2))"
    by (simp add: NewXfsMount_def NewFATMount_def strict_prefix_def)
  from sorted have content: "mset (map m_Target ?mounts) =
      mset (map fs_Mountpoint (List.map_filter p_Filesystem (pt_Partitions example_table)))"
    and asc: "sorted (map m_Target ?mounts)"
    by (rule conjunct1, rule conjunct2 [THEN conjunct1])
  from sorted pre have lt: "(0::nat) < 2"
    by simp
  show ?thesis
    by (intro exI conjI) (rule example_table_mounts targets content asc pre lt)+
qed

subsection \<open>The primary bootloader stage\<close>

lemma grub2StageOptions_fields:
  assumes "grub2StageOptions Parse rootPartition bootPartition kernelOptions kernelCust
             kernelVer uefi legacy vendor install = Inr r"
  shows "g_UEFI r =
           (if uefi then Some \<lparr>uefi_Vendor = vendor, uefi_Install = install\<rparr> else None)"
    and "g_Legacy r = legacy"
    and "g_SavedEntry r =
           (case kernelCust of
              None \<Rightarrow> []
            | Some k \<Rightarrow> ''ffffffffffffffffffffffffffffffff-'' @ kernelVer)"
  using assms
  by (auto simp: grub2StageOptions_def Let_def split: option.splits sum.splits if_splits)

lemma example_grub2_hybrid:
  "grub2StageOptions example_Parse (Some example_root) (Some example_boot) ''ro''
     (Some \<lparr>kc_Append = ''debug''\<rparr>) ''4.18.0-348.el8.x86_64'' True ''i386-pc'' ''redhat'' False =
   Inr \<lparr>g_RootFilesystemUUID = 0xefe8afeac0a845dc8e6e499279f6fa5d,
        g_BootFilesystemUUID = Some 0x0194fdc2fa2f4cc081d3ff12045b73c8,
        g_KernelOptions = ''ro debug'',
        g_Legacy = ''i386-pc'',
        g_UEFI = Some \<lparr>uefi_Vendor = ''redhat'', uefi_Install = False\<rparr>,
        g_SavedEntry = ''ffffffffffffffffffffffffffffffff-4.18.0-348.el8.x86_64''\<rparr>"
  by (simp add: grub2StageOptions_def uuid_MustParse_def example_Parse_def example_root_def
        example_boot_def example_table_def Let_def)

lemma example_grub2_legacy:
  "grub2StageOptions example_Parse (Some example_root) None ''ro''
     None [] False ''i386-pc'' ''redhat'' False =
   Inr \<lparr>g_RootFilesystemUUID = 0xefe8afeac0a845dc8e6e499279f6fa5d,
        g_BootFilesystemUUID = None,
        g_KernelOptions = ''ro'',
        g_Legacy = ''i386-pc'',
        g_UEFI = None,
        g_SavedEntry = []\<rparr>"
  by (simp add: grub2StageOptions_def uuid_MustParse_def example_Parse_def example_root_def
        example_table_def Let_def)

text \<open>
  C2, as the claim states it, fails: with the \<open>uefi\<close> flag set and the legacy platform
  \<open>i386-pc\<close> passed in, the record carries the UEFI sub-record and the legacy platform
  identifier together.
\<close>

theorem grub2StageOptions_uefi_carries_legacy:
  "grub2StageOptions example_Parse (Some example_root) (Some example_boot) ''ro''
     None ''4.18.0-348.el8.x86_64'' True ''i386-pc'' ''redhat'' True =
   Inr \<lparr>g_RootFilesystemUUID = 0xefe8afeac0a845dc8e6e499279f6fa5d,
        g_BootFilesystemUUID = Some 0x0194fdc2fa2f4cc081d3ff12045b73c8,
        g_KernelOptions = ''ro'',
        g_Legacy = ''i386-pc'',
        g_UEFI = Some \<lparr>uefi_Vendor = ''redhat'', uefi_Install = True\<rparr>,
        g_SavedEntry = []\<rparr>"
  by (simp add: grub2StageOptions_def uuid_MustParse_def example_Parse_def example_root_def
        example_boot_def example_table_def Let_def)

text \<open>
  C2, as the code has it. Whenever \<open>grub2StageOptions\<close> returns, the record carries the
  UEFI sub-record, holding the vendor string and the install flag, when the \<open>uefi\<close> flag
  is set, and no UEFI sub-record when it is unset; the legacy field holds the \<open>legacy\<close>
  argument in both modes.
\<close>

theorem grub2StageOptions_uefi_and_legacy:
  assumes "grub2StageOptions Parse rootPartition bootPartition kernelOptions kernelCust
             kernelVer uefi legacy vendor install = Inr r"
  shows "(uefi \<longrightarrow> g_UEFI r = Some \<lparr>uefi_Vendor = vendor, uefi_Install = install\<rparr>)
         \<and> (\<not> uefi \<longrightarrow> g_UEFI r = None)
         \<and> g_Legacy r = legacy"
  using grub2StageOptions_fields(1,2) [OF assms] by simp

theorem grub2StageOptions_uefi_and_legacy_witness:
  "(\<exists>r. grub2StageOptions example_Parse (Some example_root) (Some example_boot) ''ro''
           (Some \<lparr>kc_Append = ''debug''\<rparr>) ''4.18.0-348.el8.x86_64''
           True ''i386-pc'' ''redhat'' False = Inr r
        \<and> g_UEFI r = Some \<lparr>uefi_Vendor = ''redhat'', uefi_Install = False\<rparr>
        \<and> g_Legacy r = ''i386-pc'')
   \<and> (\<exists>r. grub2StageOptions example_Parse (Some example_root) None ''ro''
           None [] False ''i386-pc'' ''redhat'' False = Inr r
        \<and> g_UEFI r = None
        \<and> g_Legacy r = ''i386-pc'')"
  using grub2StageOptions_uefi_and_legacy [OF example_grub2_hybrid]
    grub2StageOptions_uefi_and_legacy [OF example_grub2_legacy]
    example_grub2_hybrid example_grub2_legacy
  by simp

text \<open>
  C4, as the claim states it, fails: a kernel version is passed in, no kernel
  customization is, and the record has no saved entry.
\<close>

theorem grub2StageOptions_version_without_saved_entry:
  "grub2StageOptions example_Parse (Some example_root) None ''ro''
     None ''4.18.0-348.el8.x86_64'' False ''i386-pc'' ''redhat'' False =
   Inr \<lparr>g_RootFilesystemUUID = 0xefe8afeac0a845dc8e6e499279f6fa5d,
        g_BootFilesystemUUID = None,
        g_KernelOptions = ''ro'',
        g_Legacy = ''i386-pc'',
        g_UEFI = None,
        g_SavedEntry = []\<rparr>"
  by (simp add: grub2StageOptions_def uuid_MustParse_def example_Parse_def example_root_def
        example_table_def Let_def)

text \<open>
  C4, as the code has it. Whenever \<open>grub2StageOptions\<close> returns, the saved entry is set
  exactly when a kernel customization is passed in (the argument \<open>kernel\<close> is not nil):
  it is then 32 characters \<open>f\<close>, a hyphen and the kernel version, whatever the version
  is; with no kernel customization the saved entry is empty.
\<close>

theorem grub2StageOptions_saved_entry:
  assumes "grub2StageOptions Parse rootPartition bootPartition kernelOptions kernelCust
             kernelVer uefi legacy vendor install = Inr r"
  shows "(kernelCust \<noteq> None \<longrightarrow>
            g_SavedEntry r = replicate 32 (CHR ''f'') @ ''-'' @ kernelVer)
         \<and> (kernelCust = None \<longrightarrow> g_SavedEntry r = [])
         \<and> (g_SavedEntry r \<noteq> [] \<longleftrightarrow> kernelCust \<noteq> None)"
  using grub2StageOptions_fields(3) [OF assms]
  by (auto simp: eval_nat_numeral split: option.splits)

theorem grub2StageOptions_saved_entry_witness:
  "(\<exists>r. grub2StageOptions example_Parse (Some example_root) (Some example_boot) ''ro''
           (Some \<lparr>kc_Append = ''debug''\<rparr>) ''4.18.0-348.el8.x86_64''
           True ''i386-pc'' ''redhat'' False = Inr r
        \<and> g_SavedEntry r = ''ffffffffffffffffffffffffffffffff-4.18.0-348.el8.x86_64'')
   \<and> (\<exists>r. grub2StageOptions example_Parse (Some example_root) None ''ro''
           None [] False ''i386-pc'' ''redhat'' False = Inr r
        \<and> g_SavedEntry r = [])"
  using grub2StageOptions_saved_entry [OF example_grub2_hybrid]
    grub2StageOptions_saved_entry [OF example_grub2_legacy]
    example_grub2_hybrid example_grub2_legacy
  by simp

text \<open>
  C9. Called with no root partition (a nil pointer), \<open>grub2StageOptions\<close> panics,
  whatever its other arguments are: the result is the panic and no record.
\<close>

theorem grub2StageOptions_nil_root_panics:
  "grub2StageOptions Parse None bootPartition kernelOptions kernelCust kernelVer uefi legacy
     vendor install =
   Inl (Panic ''root partition must be defined for grub2 stage, this is a programming error'')"
  by (simp add: grub2StageOptions_def)

subsection \<open>The boot-sector installer\<close>

lemma example_table_grub2Inst:
  "grub2InstStageOptions BootPartitionIndex ''disk.img'' example_table ''i386-pc'' =
   Inr \<lparr>gis_Filename = ''disk.img'', gis_Platform = ''i386-pc'', gis_Location = 2048,
        gis_Core = \<lparr>core_Type = ''mkimage'', core_PartLabel = ''gpt'', core_Filesystem = ''xfs''\<rparr>,
        gis_Prefix = \<lparr>pre_Type = ''partition'', pre_PartLabel = ''gpt'', pre_Number = 2,
          pre_Path = ''/grub2''\<rparr>\<rparr>"
  by (simp add: grub2InstStageOptions_def BootPartitionIndex_def example_table_def Let_def)

lemma example_table_no_boot_grub2Inst:
  "grub2InstStageOptions BootPartitionIndex ''disk.img'' example_table_no_boot ''i386-pc'' =
   Inr \<lparr>gis_Filename = ''disk.img'', gis_Platform = ''i386-pc'', gis_Location = 2048,
        gis_Core = \<lparr>core_Type = ''mkimage'', core_PartLabel = ''gpt'', core_Filesystem = ''xfs''\<rparr>,
        gis_Prefix = \<lparr>pre_Type = ''partition'', pre_PartLabel = ''gpt'', pre_Number = 2,
          pre_Path = ''/boot/grub2''\<rparr>\<rparr>"
  by (simp add: grub2InstStageOptions_def BootPartitionIndex_def example_table_no_boot_def
        Let_def)

text \<open>
  C5. Whenever \<open>grub2InstStageOptions\<close> returns, the boot-partition-index lookup has
  selected a partition of the table that carries a filesystem, and the prefix path is
  \<open>"/grub2"\<close> if and only if that filesystem is mounted at \<open>"/boot"\<close>; in every other
  case it is \<open>"/boot/grub2"\<close>. This holds for every lookup, so also when the lookup
  falls back to the root partition.
\<close>

theorem grub2InstStageOptions_prefix:
  assumes "grub2InstStageOptions lookup filename pt platform = Inr r"
  shows "\<exists>bootFs. 0 \<le> lookup pt \<and> nat (lookup pt) < length (pt_Partitions pt)
           \<and> p_Filesystem (pt_Partitions pt ! nat (lookup pt)) = Some bootFs
           \<and> (pre_Path (gis_Prefix r) = ''/grub2'' \<longleftrightarrow> fs_Mountpoint bootFs = ''/boot'')
           \<and> (fs_Mountpoint bootFs \<noteq> ''/boot'' \<longrightarrow> pre_Path (gis_Prefix r) = ''/boot/grub2'')"
  using assms
  by (auto simp: grub2InstStageOptions_def Let_def split: option.splits if_splits)

theorem grub2InstStageOptions_prefix_witness:
  "(\<exists>r bootFs.
      grub2InstStageOptions BootPartitionIndex ''disk.img'' example_table ''i386-pc'' = Inr r
      \<and> p_Filesystem (pt_Partitions example_table ! nat (BootPartitionIndex example_table)) =
          Some bootFs
      \<and> fs_Mountpoint bootFs = ''/boot''
      \<and> pre_Path (gis_Prefix r) = ''/grub2'')
   \<and> (\<exists>r bootFs.
      grub2InstStageOptions BootPartitionIndex ''disk.img'' example_table_no_boot ''i386-pc'' =
        Inr r
      \<and> p_Filesystem
          (pt_Partitions example_table_no_boot ! nat (BootPartitionIndex example_table_no_boot)) =
          Some bootFs
      \<and> fs_Mountpoint bootFs = ''/''
      \<and> pre_Path (gis_Prefix r) = ''/boot/grub2'')"
  using grub2InstStageOptions_prefix [OF example_table_grub2Inst]
    grub2InstStageOptions_prefix [OF example_table_no_boot_grub2Inst]
    example_table_grub2Inst example_table_no_boot_grub2Inst
  by (simp add: BootPartitionIndex_def example_table_def example_table_no_boot_def)

text \<open>
  C10, as the claim states it, fails in its last part: on a table whose BIOS boot
  partition and boot partition both start at sector 2048, the lookup selects the second
  partition, which is not the first, and \<open>Location\<close> is that partition's start offset.
\<close>

theorem grub2InstStageOptions_location_is_boot_start:
  "BootPartitionIndex example_table_shared_start = 1
   \<and> grub2InstStageOptions BootPartitionIndex ''disk.img'' example_table_shared_start
         ''i386-pc'' =
       Inr \<lparr>gis_Filename = ''disk.img'', gis_Platform = ''i386-pc'', gis_Location = 2048,
            gis_Core = \<lparr>core_Type = ''mkimage'', core_PartLabel = ''gpt'',
              core_Filesystem = ''xfs''\<rparr>,
            gis_Prefix = \<lparr>pre_Type = ''partition'', pre_PartLabel = ''gpt'', pre_Number = 1,
              pre_Path = ''/grub2''\<rparr>\<rparr>
   \<and> p_Start (pt_Partitions example_table_shared_start ! 1) = 2048"
  by (simp add: grub2InstStageOptions_def BootPartitionIndex_def
        example_table_shared_start_def Let_def)

text \<open>
  C10, as the code has it. Whenever \<open>grub2InstStageOptions\<close> returns, the table has a
  first partition and \<open>Location\<close> is the start offset of that first partition, whichever
  partition the lookup selected, while the prefix names the selected partition; so on a
  table whose partitions start at pairwise different offsets, when the selected
  partition is not the first, \<open>Location\<close> is not the selected partition's start offset.
\<close>

theorem grub2InstStageOptions_location:
  assumes "grub2InstStageOptions lookup filename pt platform = Inr r"
  shows "pt_Partitions pt \<noteq> []
         \<and> gis_Location r = p_Start (pt_Partitions pt ! 0)
         \<and> pre_Number (gis_Prefix r) = word_of_int (lookup pt)
         \<and> (distinct (map p_Start (pt_Partitions pt)) \<and> lookup pt \<noteq> 0 \<longrightarrow>
              gis_Location r \<noteq> p_Start (pt_Partitions pt ! nat (lookup pt)))"
proof -
  from assms have range: "0 \<le> lookup pt" "nat (lookup pt) < length (pt_Partitions pt)"
    and loc: "gis_Location r = p_Start (pt_Partitions pt ! 0)"
    and num: "pre_Number (gis_Prefix r) = word_of_int (lookup pt)"
    by (auto simp: grub2InstStageOptions_def Let_def split: option.splits if_splits)
  from range have nonempty: "pt_Partitions pt \<noteq> []"
    by auto
  have "gis_Location r \<noteq> p_Start (pt_Partitions pt ! nat (lookup pt))"
    if d: "distinct (map p_Start (pt_Partitions pt))" and other: "lookup pt \<noteq> 0"
  proof
    assume "gis_Location r = p_Start (pt_Partitions pt ! nat (lookup pt))"
    with loc have same: "p_Start (pt_Partitions pt ! 0) =
        p_Start (pt_Partitions pt ! nat (lookup pt))"
      by simp
    from range nonempty have lens: "0 < length (map p_Start (pt_Partitions pt))"
      "nat (lookup pt) < length (map p_Start (pt_Partitions pt))"
      by simp_all
    have "(map p_Start (pt_Partitions pt) ! 0 =
        map p_Start (pt_Partitions pt) ! nat (lookup pt)) = (0 = nat (lookup pt))"
      by (rule nth_eq_iff_index_eq [OF d lens])
    with same range nonempty have "0 = nat (lookup pt)"
      by simp
    with range other show False by simp
  qed
  with nonempty loc num show ?thesis by blast
qed

theorem grub2InstStageOptions_location_witness:
  "\<exists>r. grub2InstStageOptions BootPartitionIndex ''disk.img'' example_table ''i386-pc'' = Inr r
     \<and> BootPartitionIndex example_table = 2
     \<and> distinct (map p_Start (pt_Partitions example_table))
     \<and> p_Start (pt_Partitions example_table ! 0) = 2048
     \<and> p_Start (pt_Partitions example_table ! 2) = 208896
     \<and> gis_Location r = 2048
     \<and> gis_Location r \<noteq> p_Start (pt_Partitions example_table ! nat (BootPartitionIndex example_table))
     \<and> pre_Number (gis_Prefix r) = 2"
proof -
  have idx: "BootPartitionIndex example_table = 2"
    by (simp add: BootPartitionIndex_def example_table_def)
  have d: "distinct (map p_Start (pt_Partitions example_table))"
    by (simp add: example_table_def)
  have starts: "p_Start (pt_Partitions example_table ! 0) = 2048"
    "p_Start (pt_Partitions example_table ! 2) = 208896"
    by (simp_all add: example_table_def)
  note loc = grub2InstStageOptions_location [OF example_table_grub2Inst]
  from loc idx d
  have differs: "gis_Location
      \<lparr>gis_Filename = ''disk.img'', gis_Platform = ''i386-pc'', gis_Location = 2048,
       gis_Core = \<lparr>core_Type = ''mkimage'', core_PartLabel = ''gpt'', core_Filesystem = ''xfs''\<rparr>,
       gis_Prefix = \<lparr>pre_Type = ''partition'', pre_PartLabel = ''gpt'', pre_Number = 2,
         pre_Path = ''/grub2''\<rparr>\<rparr>
      \<noteq> p_Start (pt_Partitions example_table ! nat (BootPartitionIndex example_table))"
    by simp
  from example_table_grub2Inst idx d starts differs show ?thesis
    by simp
qed

subsection \<open>The bootable-ISO generators\<close>

text \<open>
  C6. In both ISO generators the architecture \<open>x86_64\<close> gives exactly the EFI
  architectures \<open>IA32\<close> and \<open>X64\<close>, the architecture \<open>aarch64\<close> gives exactly \<open>AA64\<close>,
  and every other architecture name panics; in the record of the hybrid ISO, ISOLINUX
  is enabled if and only if the architecture is \<open>x86_64\<close>.
\<close>

theorem iso_architectures:
  "(arch = ''x86_64'' \<longrightarrow>
      (\<exists>r. bootISOMonoStageOptions BCJOption kernelVer arch vendor product osVersion isolabel =
              Inr r
         \<and> efi_Architectures (bim_EFI r) = [''IA32'', ''X64''] \<and> il_Enabled (bim_ISOLinux r))
      \<and> (\<exists>r. grubISOStageOptions installDevice kernelVer arch vendor product osVersion isolabel =
              Inr r
         \<and> gi_Architectures r = [''IA32'', ''X64'']))
   \<and> (arch = ''aarch64'' \<longrightarrow>
      (\<exists>r. bootISOMonoStageOptions BCJOption kernelVer arch vendor product osVersion isolabel =
              Inr r
         \<and> efi_Architectures (bim_EFI r) = [''AA64''] \<and> \<not> il_Enabled (bim_ISOLinux r))
      \<and> (\<exists>r. grubISOStageOptions installDevice kernelVer arch vendor product osVersion isolabel =
              Inr r
         \<and> gi_Architectures r = [''AA64'']))
   \<and> (arch \<noteq> ''x86_64'' \<and> arch \<noteq> ''aarch64'' \<longrightarrow>
      bootISOMonoStageOptions BCJOption kernelVer arch vendor product osVersion isolabel =
        Inl (Panic ''unsupported architecture'')
      \<and> grubISOStageOptions installDevice kernelVer arch vendor product osVersion isolabel =
        Inl (Panic ''unsupported architecture''))
   \<and> (\<forall>r. bootISOMonoStageOptions BCJOption kernelVer arch vendor product osVersion isolabel =
             Inr r
        \<longrightarrow> (il_Enabled (bim_ISOLinux r) \<longleftrightarrow> arch = ''x86_64''))"
  by (auto simp: bootISOMonoStageOptions_def grubISOStageOptions_def Let_def
        X86_64ArchName_def Aarch64ArchName_def)

theorem iso_architectures_witness:
  "(\<exists>r. bootISOMonoStageOptions example_BCJOption ''4.18.0-348.el8.x86_64'' ''x86_64''
           ''redhat'' ''Red Hat Enterprise Linux'' ''8.6'' ''RHEL-8-6-0-BaseOS-x86_64'' = Inr r
        \<and> efi_Architectures (bim_EFI r) = [''IA32'', ''X64''] \<and> il_Enabled (bim_ISOLinux r))
   \<and> (\<exists>r. grubISOStageOptions ''/dev/vda'' ''4.18.0-348.el8.aarch64'' ''aarch64''
           ''redhat'' ''Red Hat Enterprise Linux'' ''8.6'' ''RHEL-8-6-0-BaseOS-aarch64'' = Inr r
        \<and> gi_Architectures r = [''AA64''])
   \<and> (\<exists>r. bootISOMonoStageOptions example_BCJOption ''4.18.0-348.el8.aarch64'' ''aarch64''
           ''redhat'' ''Red Hat Enterprise Linux'' ''8.6'' ''RHEL-8-6-0-BaseOS-aarch64'' = Inr r
        \<and> efi_Architectures (bim_EFI r) = [''AA64''] \<and> \<not> il_Enabled (bim_ISOLinux r))
   \<and> bootISOMonoStageOptions example_BCJOption ''4.18.0-348.el8.s390x'' ''s390x''
        ''redhat'' ''Red Hat Enterprise Linux'' ''8.6'' ''RHEL-8-6-0-BaseOS-s390x'' =
      Inl (Panic ''unsupported architecture'')
   \<and> grubISOStageOptions ''/dev/vda'' ''4.18.0-348.el8.s390x'' ''s390x''
        ''redhat'' ''Red Hat Enterprise Linux'' ''8.6'' ''RHEL-8-6-0-BaseOS-s390x'' =
      Inl (Panic ''unsupported architecture'')"
proof -
  note x86 = iso_architectures [of "''x86_64''" example_BCJOption "''4.18.0-348.el8.x86_64''"
    "''redhat''" "''Red Hat Enterprise Linux''" "''8.6''" "''RHEL-8-6-0-BaseOS-x86_64''"
    "''/dev/vda''"]
  note arm = iso_architectures [of "''aarch64''" example_BCJOption "''4.18.0-348.el8.aarch64''"
    "''redhat''" "''Red Hat Enterprise Linux''" "''8.6''" "''RHEL-8-6-0-BaseOS-aarch64''"
    "''/dev/vda''"]
  note s390 = iso_architectures [of "''s390x''" example_BCJOption "''4.18.0-348.el8.s390x''"
    "''redhat''" "''Red Hat Enterprise Linux''" "''8.6''" "''RHEL-8-6-0-BaseOS-s390x''"
    "''/dev/vda''"]
  from x86 have a: "\<exists>r. bootISOMonoStageOptions example_BCJOption ''4.18.0-348.el8.x86_64''
        ''x86_64'' ''redhat'' ''Red Hat Enterprise Linux'' ''8.6'' ''RHEL-8-6-0-BaseOS-x86_64'' =
        Inr r
      \<and> efi_Architectures (bim_EFI r) = [''IA32'', ''X64''] \<and> il_Enabled (bim_ISOLinux r)"
    by simp
  from arm have b: "\<exists>r. grubISOStageOptions ''/dev/vda'' ''4.18.0-348.el8.aarch64'' ''aarch64''
        ''redhat'' ''Red Hat Enterprise Linux'' ''8.6'' ''RHEL-8-6-0-BaseOS-aarch64'' = Inr r
      \<and> gi_Architectures r = [''AA64'']"
    by simp
  from arm have c: "\<exists>r. bootISOMonoStageOptions example_BCJOption ''4.18.0-348.el8.aarch64''
        ''aarch64'' ''redhat'' ''Red Hat Enterprise Linux'' ''8.6'' ''RHEL-8-6-0-BaseOS-aarch64'' =
        Inr r
      \<and> efi_Architectures (bim_EFI r) = [''AA64''] \<and> \<not> il_Enabled (bim_ISOLinux r)"
    by simp
  from s390 have d: "bootISOMonoStageOptions example_BCJOption ''4.18.0-348.el8.s390x'' ''s390x''
        ''redhat'' ''Red Hat Enterprise Linux'' ''8.6'' ''RHEL-8-6-0-BaseOS-s390x'' =
      Inl (Panic ''unsupported architecture'')"
    and e: "grubISOStageOptions ''/dev/vda'' ''4.18.0-348.el8.s390x'' ''s390x''
        ''redhat'' ''Red Hat Enterprise Linux'' ''8.6'' ''RHEL-8-6-0-BaseOS-s390x'' =
      Inl (Panic ''unsupported architecture'')"
    by simp_all
  from a b c d e show ?thesis
    by (intro conjI)
qed

subsection \<open>The initramfs module list\<close>

text \<open>
  C7. For every architecture and every list of additional modules, the module list of
  \<open>dracutStageOptions\<close> is the fixed baseline in its order, then \<open>biosdevname\<close> exactly
  when the architecture is \<open>x86_64\<close>, then the additional modules in the order given; and
  the install list contains \<open>/.buildstamp\<close>.
\<close>

theorem dracutStageOptions_modules:
  "dr_Modules (dracutStageOptions kernelVer arch additionalModules) =
     [''bash'', ''systemd'', ''fips'', ''systemd-initrd'', ''modsign'', ''nss-softokn'',
      ''rdma'', ''rngd'', ''i18n'', ''convertfs'', ''network-manager'', ''network'',
      ''ifcfg'', ''url-lib'', ''drm'', ''plymouth'', ''prefixdevname'',
      ''prefixdevname-tools'', ''crypt'', ''dm'', ''dmsquash-live'', ''kernel-modules'',
      ''kernel-modules-extra'', ''kernel-network-modules'', ''livenet'', ''lvm'',
      ''mdraid'', ''multipath'', ''qemu'', ''qemu-net'', ''fcoe'', ''fcoe-uefi'', ''iscsi'',
      ''lunmask'', ''nfs'', ''resume'', ''rootfs-block'', ''terminfo'', ''udev-rules'',
      ''dracut-systemd'', ''pollcdrom'', ''usrmount'', ''base'', ''fs-lib'', ''img-lib'',
      ''shutdown'', ''uefi-lib'']
     @ (if arch = ''x86_64'' then [''biosdevname''] else [])
     @ additionalModules
   \<and> ''/.buildstamp'' \<in> set (dr_Install (dracutStageOptions kernelVer arch additionalModules))"
  by (simp add: dracutStageOptions_def Let_def X86_64ArchName_def)

theorem dracutStageOptions_modules_witness:
  "drop 47 (dr_Modules (dracutStageOptions ''4.18.0-348.el8.x86_64'' ''x86_64''
      [''nvmf'', ''zfs''])) = [''biosdevname'', ''nvmf'', ''zfs'']
   \<and> drop 47 (dr_Modules (dracutStageOptions ''4.18.0-348.el8.aarch64'' ''aarch64''
      [''nvmf'', ''zfs''])) = [''nvmf'', ''zfs'']"
  using dracutStageOptions_modules [of "''4.18.0-348.el8.x86_64''" "''x86_64''" "[''nvmf'', ''zfs'']"]
    dracutStageOptions_modules [of "''4.18.0-348.el8.aarch64''" "''aarch64''" "[''nvmf'', ''zfs'']"]
  by simp

subsection \<open>User provisioning\<close>

lemma userStage_users_append:
  "userStage_users isC crypt (xs @ ys) U =
     (case userStage_users isC crypt xs U of
        Inl e \<Rightarrow> Inl e
      | Inr U' \<Rightarrow> userStage_users isC crypt ys U')"
  by (induction xs arbitrary: U) (auto split: sum.splits option.splits)

lemma userStage_users_other_name:
  "userStage_users isC crypt cs U = Inr M \<Longrightarrow> n \<notin> uc_Name ` set cs \<Longrightarrow> M n = U n"
  by (induction cs arbitrary: U) (auto split: sum.splits option.splits if_splits)

lemma userStage_users_head:
  assumes "userStage_users isC crypt (c # cs) U = Inr M"
    and "uc_Name c \<notin> uc_Name ` set cs"
  shows "\<exists>embedded.
           M (uc_Name c) =
             Some \<lparr>u_UID = uc_UID c, u_GID = uc_GID c, u_Groups = uc_Groups c,
                   u_Description = uc_Description c, u_Home = uc_Home c,
                   u_Shell = uc_Shell c, u_Password = embedded, u_Key = uc_Key c\<rparr>
           \<and> (uc_Password c = None \<longrightarrow> embedded = None)
           \<and> (\<forall>password. uc_Password c = Some password \<and> isC password \<longrightarrow>
                 embedded = Some password)
           \<and> (\<forall>password. uc_Password c = Some password \<and> \<not> isC password \<longrightarrow>
                 (\<exists>h. crypt password = Inr h \<and> embedded = Some h))"
  using assms
  by (auto split: sum.splits option.splits if_splits dest!: userStage_users_other_name)

lemma userStage_users_last:
  assumes "userStage_users isC crypt (before @ c # after) U = Inr M"
    and "uc_Name c \<notin> uc_Name ` set after"
  shows "\<exists>embedded.
           M (uc_Name c) =
             Some \<lparr>u_UID = uc_UID c, u_GID = uc_GID c, u_Groups = uc_Groups c,
                   u_Description = uc_Description c, u_Home = uc_Home c,
                   u_Shell = uc_Shell c, u_Password = embedded, u_Key = uc_Key c\<rparr>
           \<and> (uc_Password c = None \<longrightarrow> embedded = None)
           \<and> (\<forall>password. uc_Password c = Some password \<and> isC password \<longrightarrow>
                 embedded = Some password)
           \<and> (\<forall>password. uc_Password c = Some password \<and> \<not> isC password \<longrightarrow>
                 (\<exists>h. crypt password = Inr h \<and> embedded = Some h))"
proof -
  from assms(1) obtain U' where "userStage_users isC crypt (c # after) U' = Inr M"
    by (auto simp: userStage_users_append split: sum.splits)
  from userStage_users_head [OF this assms(2)] show ?thesis .
qed

lemma userStage_users_provenance:
  assumes "userStage_users isC crypt cs U = Inr M"
    and "\<And>n u s. U n = Some u \<Longrightarrow> u_Password u = Some s \<Longrightarrow> Q s"
    and "\<And>c password. c \<in> set cs \<Longrightarrow> uc_Password c = Some password \<Longrightarrow> isC password \<Longrightarrow>
           Q password"
    and "\<And>c password h. c \<in> set cs \<Longrightarrow> uc_Password c = Some password \<Longrightarrow>
           \<not> isC password \<Longrightarrow> crypt password = Inr h \<Longrightarrow> Q h"
    and "M n = Some u" and "u_Password u = Some s"
  shows "Q s"
  using assms
proof (induction cs arbitrary: U)
  case Nil
  then show ?case by auto
next
  case (Cons c cs)
  from Cons.prems(1) obtain c' where
    step: "(case uc_Password c of
              None \<Rightarrow> Inr c
            | Some password \<Rightarrow>
                if \<not> isC password then
                  (case crypt password of
                     Inl err \<Rightarrow> Inl (Err err)
                   | Inr cryptedPassword \<Rightarrow> Inr (c\<lparr>uc_Password := Some cryptedPassword\<rparr>))
                else Inr c) = Inr c'"
    and rest: "userStage_users isC crypt cs
        (U(uc_Name c' \<mapsto>
           \<lparr>u_UID = uc_UID c', u_GID = uc_GID c', u_Groups = uc_Groups c',
            u_Description = uc_Description c', u_Home = uc_Home c',
            u_Shell = uc_Shell c', u_Password = uc_Password c', u_Key = uc_Key c'\<rparr>)) = Inr M"
    by (auto split: sum.splits)
  have new: "Q s'" if "uc_Password c' = Some s'" for s'
    using step that Cons.prems(3) [of c] Cons.prems(4) [of c]
    by (auto split: option.splits if_splits sum.splits)
  show ?case
  proof (rule Cons.IH [OF rest _ _ _ Cons.prems(5,6)])
    fix n u s
    assume "(U(uc_Name c' \<mapsto>
           \<lparr>u_UID = uc_UID c', u_GID = uc_GID c', u_Groups = uc_Groups c',
            u_Description = uc_Description c', u_Home = uc_Home c',
            u_Shell = uc_Shell c', u_Password = uc_Password c', u_Key = uc_Key c'\<rparr>)) n = Some u"
      and "u_Password u = Some s"
    then show "Q s"
      using new Cons.prems(2) by (auto split: if_splits)
  next
    fix d password
    assume "d \<in> set cs" "uc_Password d = Some password" "isC password"
    then show "Q password" using Cons.prems(3) [of d password] by simp
  next
    fix d password h
    assume "d \<in> set cs" "uc_Password d = Some password" "\<not> isC password" "crypt password = Inr h"
    then show "Q h" using Cons.prems(4) [of d password h] by simp
  qed
qed

lemma userStage_users_fails:
  assumes "c \<in> set cs" and "uc_Password c = Some password" and "\<not> isC password"
    and "crypt password = Inl err"
  shows "\<exists>err'. userStage_users isC crypt cs U = Inl (Err err')"
  using assms
  by (induction cs arbitrary: U) (auto split: sum.splits option.splits)

lemma userStage_users_failure:
  assumes "userStage_users isC crypt cs U = Inl e"
  shows "\<exists>c\<in>set cs. \<exists>password err.
           uc_Password c = Some password \<and> \<not> isC password \<and> crypt password = Inl err
           \<and> e = Err err"
  using assms
  by (induction cs arbitrary: U) (auto split: sum.splits option.splits if_splits)


lemma example_users_stage:
  "userStageOptions example_PasswordIsCrypted example_CryptSHA512 [example_alice, example_bob] =
     Inr example_users_options"
  by (simp add: userStageOptions_def example_PasswordIsCrypted_def example_CryptSHA512_def
        example_alice_def example_bob_def example_users_options_def)

lemma example_hash_is_crypted:
  "\<forall>plain h. example_CryptSHA512 plain = Inr h \<longrightarrow> example_PasswordIsCrypted h"
  by (auto simp: example_CryptSHA512_def example_PasswordIsCrypted_def split: if_splits)

text \<open>
  C8, as the claim states it, fails. A user whose name, description and group are the
  string of its plaintext password gets an entry that holds this string three times,
  next to the hash; and of two users of one name, both with a crypted password, the
  record holds only the second one, so the password of the first is not embedded.
\<close>

theorem userStageOptions_plaintext_in_other_fields:
  "userStageOptions example_PasswordIsCrypted example_CryptSHA512 [example_eve] =
     Inr \<lparr>uso_Users =
       [''hunter2'' \<mapsto>
          \<lparr>u_UID = None, u_GID = None, u_Groups = [''hunter2''],
           u_Description = Some ''hunter2'', u_Home = None, u_Shell = None,
           u_Password = Some ''$6$GhcSx0RdVG2yPeVu$iJ3f1wqFtzdkVZ1vAf8o'',
           u_Key = None\<rparr>]\<rparr>
   \<and> userStageOptions example_PasswordIsCrypted example_CryptSHA512
         [example_dave_first, example_dave_second] =
     Inr \<lparr>uso_Users =
       [''dave'' \<mapsto>
          \<lparr>u_UID = None, u_GID = None, u_Groups = [], u_Description = None,
           u_Home = None, u_Shell = None,
           u_Password = Some ''$6$second$Zb7xPw4LhE'', u_Key = None\<rparr>]\<rparr>"
  by (simp add: userStageOptions_def example_PasswordIsCrypted_def example_CryptSHA512_def
        example_eve_def example_dave_first_def example_dave_second_def)

text \<open>
  C8, as the code has it. Let \<open>userStageOptions\<close> run with any test \<open>isC\<close> for the
  crypted form and any hash \<open>crypt\<close>. When it returns a record, the record has an entry
  for the names of the users and for no other name, and the entry of a name is built
  from the user that comes last under that name: it is a copy of that user's fields,
  except that the password is embedded unchanged if it is in crypted form and replaced
  by its hash if it is not. Every password field of the record holds a crypted password
  of the input or the hash of a plaintext password of the input; and, where the hash
  only ever returns strings in crypted form, no password field holds a string that is
  not in crypted form, so none holds a plaintext password. When the hash fails for the
  plaintext password of some user, the result is a returned error and no record; and
  every failure is the returned error of such a hash.
\<close>

theorem userStageOptions_passwords:
  "(userStageOptions isC crypt users = Inr r \<longrightarrow>
      (users = before @ c # after \<and> uc_Name c \<notin> uc_Name ` set after \<longrightarrow>
         (\<exists>embedded.
            uso_Users r (uc_Name c) =
              Some \<lparr>u_UID = uc_UID c, u_GID = uc_GID c, u_Groups = uc_Groups c,
                    u_Description = uc_Description c, u_Home = uc_Home c,
                    u_Shell = uc_Shell c, u_Password = embedded, u_Key = uc_Key c\<rparr>
            \<and> (uc_Password c = None \<longrightarrow> embedded = None)
            \<and> (\<forall>password. uc_Password c = Some password \<and> isC password \<longrightarrow>
                  embedded = Some password)
            \<and> (\<forall>password. uc_Password c = Some password \<and> \<not> isC password \<longrightarrow>
                  (\<exists>h. crypt password = Inr h \<and> embedded = Some h))))
      \<and> (name \<notin> uc_Name ` set users \<longrightarrow> uso_Users r name = None)
      \<and> (uso_Users r name = Some u' \<and> u_Password u' = Some s \<longrightarrow>
           (isC s \<and> (\<exists>c'\<in>set users. uc_Password c' = Some s))
           \<or> (\<exists>c'\<in>set users. \<exists>plain.
                 uc_Password c' = Some plain \<and> \<not> isC plain \<and> crypt plain = Inr s))
      \<and> ((\<forall>plain h. crypt plain = Inr h \<longrightarrow> isC h) \<and> uso_Users r name = Some u' \<and> \<not> isC s \<longrightarrow>
           u_Password u' \<noteq> Some s))
   \<and> ((\<exists>c'\<in>set users. \<exists>plain err.
          uc_Password c' = Some plain \<and> \<not> isC plain \<and> crypt plain = Inl err) \<longrightarrow>
        (\<exists>err. userStageOptions isC crypt users = Inl (Err err)))
   \<and> (userStageOptions isC crypt users = Inl e \<longrightarrow>
        (\<exists>c'\<in>set users. \<exists>plain err.
           uc_Password c' = Some plain \<and> \<not> isC plain \<and> crypt plain = Inl err \<and> e = Err err))"
proof (intro conjI impI)
  assume ok: "userStageOptions isC crypt users = Inr r"
  then have loop: "userStage_users isC crypt users Map.empty = Inr (uso_Users r)"
    by (auto simp: userStageOptions_def split: sum.splits)
  {
    assume "users = before @ c # after \<and> uc_Name c \<notin> uc_Name ` set after"
    with loop show "\<exists>embedded.
        uso_Users r (uc_Name c) =
          Some \<lparr>u_UID = uc_UID c, u_GID = uc_GID c, u_Groups = uc_Groups c,
                u_Description = uc_Description c, u_Home = uc_Home c,
                u_Shell = uc_Shell c, u_Password = embedded, u_Key = uc_Key c\<rparr>
        \<and> (uc_Password c = None \<longrightarrow> embedded = None)
        \<and> (\<forall>password. uc_Password c = Some password \<and> isC password \<longrightarrow>
              embedded = Some password)
        \<and> (\<forall>password. uc_Password c = Some password \<and> \<not> isC password \<longrightarrow>
              (\<exists>h. crypt password = Inr h \<and> embedded = Some h))"
      using userStage_users_last [of isC crypt before c after Map.empty "uso_Users r"]
      by simp
  }
  {
    assume "name \<notin> uc_Name ` set users"
    with loop show "uso_Users r name = None"
      by (simp add: userStage_users_other_name)
  }
  {
    assume "uso_Users r name = Some u' \<and> u_Password u' = Some s"
    then have held: "uso_Users r name = Some u'" "u_Password u' = Some s" by simp_all
    show "(isC s \<and> (\<exists>c'\<in>set users. uc_Password c' = Some s))
        \<or> (\<exists>c'\<in>set users. \<exists>plain.
              uc_Password c' = Some plain \<and> \<not> isC plain \<and> crypt plain = Inr s)"
      by (rule userStage_users_provenance [OF loop _ _ _ held]) auto
  }
  {
    assume "(\<forall>plain h. crypt plain = Inr h \<longrightarrow> isC h) \<and> uso_Users r name = Some u' \<and> \<not> isC s"
    then have hashes: "\<And>plain h. crypt plain = Inr h \<Longrightarrow> isC h"
      and held: "uso_Users r name = Some u'" and plain: "\<not> isC s"
      by simp_all
    show "u_Password u' \<noteq> Some s"
    proof
      assume "u_Password u' = Some s"
      from userStage_users_provenance [OF loop _ _ _ held this, of isC]
      have "isC s" using hashes by auto
      with plain show False by simp
    qed
  }
next
  assume "\<exists>c'\<in>set users. \<exists>plain err.
      uc_Password c' = Some plain \<and> \<not> isC plain \<and> crypt plain = Inl err"
  then obtain c' plain err where "c' \<in> set users" "uc_Password c' = Some plain"
    "\<not> isC plain" "crypt plain = Inl err"
    by blast
  from userStage_users_fails [where isC = isC and crypt = crypt and U = Map.empty, OF this]
  show "\<exists>err. userStageOptions isC crypt users = Inl (Err err)"
    by (auto simp: userStageOptions_def)
next
  assume "userStageOptions isC crypt users = Inl e"
  then have "userStage_users isC crypt users Map.empty = Inl e"
    by (auto simp: userStageOptions_def split: sum.splits)
  from userStage_users_failure [OF this]
  show "\<exists>c'\<in>set users. \<exists>plain err.
      uc_Password c' = Some plain \<and> \<not> isC plain \<and> crypt plain = Inl err \<and> e = Err err" .
qed

theorem userStageOptions_passwords_witness:
  "userStageOptions example_PasswordIsCrypted example_CryptSHA512 [example_alice, example_bob] =
     Inr example_users_options
   \<and> (\<exists>u. uso_Users example_users_options ''alice'' = Some u
         \<and> u_Password u = Some ''$6$GhcSx0RdVG2yPeVu$iJ3f1wqFtzdkVZ1vAf8o'')
   \<and> (\<exists>u. uso_Users example_users_options ''bob'' = Some u
         \<and> u_Password u = Some ''$6$Wn0wS7Qk$3vJXr5dQpQ0m'')
   \<and> (\<exists>u. uso_Users example_users_options ''alice'' = Some u
         \<and> u_Password u \<noteq> Some ''hunter2'')
   \<and> uso_Users example_users_options ''carol'' = None
   \<and> (\<exists>err. userStageOptions example_PasswordIsCrypted example_CryptSHA512
         [example_alice, example_carol] = Inl (Err err))"
proof -
  note ok = example_users_stage
  have absent: "uso_Users example_users_options ''carol'' = None"
    using userStageOptions_passwords [where isC = example_PasswordIsCrypted
        and crypt = example_CryptSHA512 and users = "[example_alice, example_bob]"
        and r = example_users_options and name = "''carol''"] ok
    by (simp add: example_alice_def example_bob_def)
  obtain ua where ua: "uso_Users example_users_options ''alice'' = Some ua"
    by (simp add: example_users_options_def)
  have alice: "\<exists>u. uso_Users example_users_options ''alice'' = Some u
      \<and> u_Password u = Some ''$6$GhcSx0RdVG2yPeVu$iJ3f1wqFtzdkVZ1vAf8o''"
    using userStageOptions_passwords [where isC = example_PasswordIsCrypted
        and crypt = example_CryptSHA512 and users = "[example_alice, example_bob]"
        and r = example_users_options and before = "[]" and c = example_alice
        and after = "[example_bob]"] ok
    by (simp add: example_alice_def example_bob_def example_PasswordIsCrypted_def
          example_CryptSHA512_def)
  have bob: "\<exists>u. uso_Users example_users_options ''bob'' = Some u
      \<and> u_Password u = Some ''$6$Wn0wS7Qk$3vJXr5dQpQ0m''"
    using userStageOptions_passwords [where isC = example_PasswordIsCrypted
        and crypt = example_CryptSHA512 and users = "[example_alice, example_bob]"
        and r = example_users_options and before = "[example_alice]" and c = example_bob
        and after = "[]"] ok
    by (simp add: example_alice_def example_bob_def example_PasswordIsCrypted_def)
  have "u_Password ua \<noteq> Some ''hunter2''"
    using userStageOptions_passwords [where isC = example_PasswordIsCrypted
        and crypt = example_CryptSHA512 and users = "[example_alice, example_bob]"
        and r = example_users_options and name = "''alice''" and u' = ua
        and s = "''hunter2''"] ok ua example_hash_is_crypted
    by (simp add: example_PasswordIsCrypted_def)
  with ua have plain: "\<exists>u. uso_Users example_users_options ''alice'' = Some u
      \<and> u_Password u \<noteq> Some ''hunter2''"
    by blast
  have fails: "\<exists>err. userStageOptions example_PasswordIsCrypted example_CryptSHA512
      [example_alice, example_carol] = Inl (Err err)"
    using userStageOptions_passwords [where isC = example_PasswordIsCrypted
        and crypt = example_CryptSHA512 and users = "[example_alice, example_carol]"]
    by (simp add: example_alice_def example_carol_def example_PasswordIsCrypted_def
          example_CryptSHA512_def)
  from ok alice bob plain absent fails show ?thesis
    by (intro conjI)
qed

subsection \<open>The first-boot script\<close>

text \<open>
  C3. The first-boot generator is not a function of its input alone. The users stage
  options built from two users that carry a key form a map of two entries; a loop over
  it may visit \<open>alice\<close> first or \<open>bob\<close> first; and the two runs return different command
  lists, whatever \<open>filepath.Join\<close> and the verb \<open>%q\<close> compute.
\<close>

theorem usersFirstBootOptions_depends_on_iteration_order:
  "userStageOptions example_PasswordIsCrypted example_CryptSHA512 [example_alice, example_bob] =
     Inr example_users_options
   \<and> map_iteration (uso_Users example_users_options) [''alice'', ''bob'']
   \<and> map_iteration (uso_Users example_users_options) [''bob'', ''alice'']
   \<and> fb_Commands (usersFirstBootOptions Join Quote [''alice'', ''bob''] example_users_options) =
       [''mkdir -p '' @ Join [Join [''/var'', ''home''], ''alice'', ''.ssh''],
        ''sh -c 'echo '' @ Quote ''ssh-ed25519 AAAAC3NzaC1lZDI1NTE5 alice'' @ '' >> '' @
          Quote (Join [Join [Join [''/var'', ''home''], ''alice'', ''.ssh''], ''authorized_keys''])
          @ [CHR 0x27],
        ''chown alice:alice -Rc '' @ Join [Join [''/var'', ''home''], ''alice'', ''.ssh''],
        ''mkdir -p '' @ Join [Join [''/var'', ''home''], ''bob'', ''.ssh''],
        ''sh -c 'echo '' @ Quote ''ssh-rsa AAAAB3NzaC1yc2E bob'' @ '' >> '' @
          Quote (Join [Join [Join [''/var'', ''home''], ''bob'', ''.ssh''], ''authorized_keys''])
          @ [CHR 0x27],
        ''chown bob:bob -Rc '' @ Join [Join [''/var'', ''home''], ''bob'', ''.ssh''],
        ''restorecon -rvF '' @ Join [''/var'', ''home'']]
   \<and> fb_Commands (usersFirstBootOptions Join Quote [''bob'', ''alice''] example_users_options) =
       [''mkdir -p '' @ Join [Join [''/var'', ''home''], ''bob'', ''.ssh''],
        ''sh -c 'echo '' @ Quote ''ssh-rsa AAAAB3NzaC1yc2E bob'' @ '' >> '' @
          Quote (Join [Join [Join [''/var'', ''home''], ''bob'', ''.ssh''], ''authorized_keys''])
          @ [CHR 0x27],
        ''chown bob:bob -Rc '' @ Join [Join [''/var'', ''home''], ''bob'', ''.ssh''],
        ''mkdir -p '' @ Join [Join [''/var'', ''home''], ''alice'', ''.ssh''],
        ''sh -c 'echo '' @ Quote ''ssh-ed25519 AAAAC3NzaC1lZDI1NTE5 alice'' @ '' >> '' @
          Quote (Join [Join [Join [''/var'', ''home''], ''alice'', ''.ssh''], ''authorized_keys''])
          @ [CHR 0x27],
        ''chown alice:alice -Rc '' @ Join [Join [''/var'', ''home''], ''alice'', ''.ssh''],
        ''restorecon -rvF '' @ Join [''/var'', ''home'']]
   \<and> usersFirstBootOptions Join Quote [''alice'', ''bob''] example_users_options \<noteq>
       usersFirstBootOptions Join Quote [''bob'', ''alice''] example_users_options"
proof -
  have maps: "map_iteration (uso_Users example_users_options) [''alice'', ''bob'']"
    "map_iteration (uso_Users example_users_options) [''bob'', ''alice'']"
    by (auto simp: map_iteration_def example_users_options_def)
  have ab: "fb_Commands (usersFirstBootOptions Join Quote [''alice'', ''bob''] example_users_options) =
       [''mkdir -p '' @ Join [Join [''/var'', ''home''], ''alice'', ''.ssh''],
        ''sh -c 'echo '' @ Quote ''ssh-ed25519 AAAAC3NzaC1lZDI1NTE5 alice'' @ '' >> '' @
          Quote (Join [Join [Join [''/var'', ''home''], ''alice'', ''.ssh''], ''authorized_keys''])
          @ [CHR 0x27],
        ''chown alice:alice -Rc '' @ Join [Join [''/var'', ''home''], ''alice'', ''.ssh''],
        ''mkdir -p '' @ Join [Join [''/var'', ''home''], ''bob'', ''.ssh''],
        ''sh -c 'echo '' @ Quote ''ssh-rsa AAAAB3NzaC1yc2E bob'' @ '' >> '' @
          Quote (Join [Join [Join [''/var'', ''home''], ''bob'', ''.ssh''], ''authorized_keys''])
          @ [CHR 0x27],
        ''chown bob:bob -Rc '' @ Join [Join [''/var'', ''home''], ''bob'', ''.ssh''],
        ''restorecon -rvF '' @ Join [''/var'', ''home'']]"
    by (simp add: usersFirstBootOptions_def example_users_options_def Let_def)
  have ba: "fb_Commands (usersFirstBootOptions Join Quote [''bob'', ''alice''] example_users_options) =
       [''mkdir -p '' @ Join [Join [''/var'', ''home''], ''bob'', ''.ssh''],
        ''sh -c 'echo '' @ Quote ''ssh-rsa AAAAB3NzaC1yc2E bob'' @ '' >> '' @
          Quote (Join [Join [Join [''/var'', ''home''], ''bob'', ''.ssh''], ''authorized_keys''])
          @ [CHR 0x27],
        ''chown bob:bob -Rc '' @ Join [Join [''/var'', ''home''], ''bob'', ''.ssh''],
        ''mkdir -p '' @ Join [Join [''/var'', ''home''], ''alice'', ''.ssh''],
        ''sh -c 'echo '' @ Quote ''ssh-ed25519 AAAAC3NzaC1lZDI1NTE5 alice'' @ '' >> '' @
          Quote (Join [Join [Join [''/var'', ''home''], ''alice'', ''.ssh''], ''authorized_keys''])
          @ [CHR 0x27],
        ''chown alice:alice -Rc '' @ Join [Join [''/var'', ''home''], ''alice'', ''.ssh''],
        ''restorecon -rvF '' @ Join [''/var'', ''home'']]"
    by (simp add: usersFirstBootOptions_def example_users_options_def Let_def)
  have "fb_Commands (usersFirstBootOptions Join Quote [''alice'', ''bob''] example_users_options)
      ! 2 \<noteq>
    fb_Commands (usersFirstBootOptions Join Quote [''bob'', ''alice''] example_users_options) ! 2"
    unfolding ab ba by simp
  then have differ: "usersFirstBootOptions Join Quote [''alice'', ''bob''] example_users_options \<noteq>
       usersFirstBootOptions Join Quote [''bob'', ''alice''] example_users_options"
    by auto
  from example_users_stage maps ab ba differ show ?thesis
    by (intro conjI)
qed

end
